theory Spec2Isabelle
  imports Complex_Main "HOL-Library.AList"
begin

section \<open>Pipeline notifications: failure attribution and routing\<close>

text \<open>
  A shallow embedding of \<^verbatim>\<open>tasks/libs/pipeline/notifications.py\<close>. Each Python function
  becomes a HOL function of the same name. Whatever the module obtains from outside
  (the parsed owners file, the decoded artifact, the environment, the git author) is an
  argument of the model.
\<close>

subsection \<open>Failed jobs and their owners\<close>

text \<open>
  An owner is the pair \<^verbatim>\<open>(kind, name)\<close> that \<^verbatim>\<open>owners.of\<close> returns; the kind is the
  string the source compares with \<^verbatim>\<open>"TEAM"\<close>.
\<close>

type_synonym owner = "string \<times> string"

text \<open>
  Modelled from the spec: the enumeration \<^verbatim>\<open>FailedJobReason\<close> of
  \<^verbatim>\<open>tasks.libs.types.types\<close> is not among the sources. The specification lists a
  generic test failure, the e2e infrastructure failure and other infrastructure
  failures; only \<^verbatim>\<open>E2E_INFRA_FAILURE\<close> is named by the code.
\<close>

datatype FailedJobReason = GENERIC_TEST_FAILURE | E2E_INFRA_FAILURE | OTHER_INFRA_FAILURE

text \<open>
  Modelled from the spec: a failed job (\<^verbatim>\<open>ProjectJob\<close> with the attributes the triage
  attaches to it) is identified by its name and id and carries a failure reason, a
  mandatory flag and an infra flag.
\<close>

record ProjectJob =
  name :: string
  job_id :: nat
  failure_reason :: FailedJobReason
  mandatory :: bool
  infra :: bool

text \<open>
  Modelled from the spec: the container \<^verbatim>\<open>FailedJobs\<close> of \<^verbatim>\<open>tasks.libs.types.types\<close>
  is not among the sources. Following the data model of the specification it is the
  collection of the failed jobs it holds: \<^verbatim>\<open>mandatory_infra_job_failures\<close> are its
  jobs that are mandatory and infra, \<^verbatim>\<open>all_non_infra_failures()\<close> its jobs that are
  not infra, and \<^verbatim>\<open>add_failed_job\<close> adds a job to it.
\<close>

type_synonym FailedJobs = "ProjectJob list"

definition FailedJobs_new :: FailedJobs where
  "FailedJobs_new = []"

definition add_failed_job :: "FailedJobs \<Rightarrow> ProjectJob \<Rightarrow> FailedJobs" where
  "add_failed_job fj job = fj @ [job]"

definition mandatory_infra_job_failures :: "FailedJobs \<Rightarrow> ProjectJob list" where
  "mandatory_infra_job_failures fj = filter (\<lambda>j. infra j \<and> mandatory j) fj"

definition all_non_infra_failures :: "FailedJobs \<Rightarrow> ProjectJob list" where
  "all_non_infra_failures fj = filter (\<lambda>j. \<not> infra j) fj"

subsection \<open>Routing: \<^verbatim>\<open>find_job_owners\<close>\<close>

text \<open>
  \<^verbatim>\<open>owners_to_notify\<close> is a \<^verbatim>\<open>defaultdict(FailedJobs)\<close>: reading a missing key creates
  an empty container under it. \<open>notify\<close> is the statement
  \<^verbatim>\<open>owners_to_notify[owner].add_failed_job(job)\<close>.
\<close>

type_synonym routing = "string \<rightharpoonup> FailedJobs"

definition notify :: "routing \<Rightarrow> string \<Rightarrow> ProjectJob \<Rightarrow> routing" where
  "notify m owner job =
     m(owner \<mapsto> add_failed_job (case m owner of None \<Rightarrow> FailedJobs_new | Some b \<Rightarrow> b) job)"

definition fallback_owner :: string where
  "fallback_owner = ''@DataDog/agent-e2e-testing''"

text \<open>The first loop, over \<^verbatim>\<open>failed_jobs.mandatory_infra_job_failures\<close>.\<close>

fun notify_e2e :: "routing \<Rightarrow> ProjectJob list \<Rightarrow> routing" where
  "notify_e2e m [] = m"
| "notify_e2e m (job # jobs) =
     notify_e2e
       (if failure_reason job = E2E_INFRA_FAILURE then notify m fallback_owner job else m)
       jobs"

text \<open>The inner loop \<^verbatim>\<open>for kind, owner in job_owners\<close>.\<close>

fun notify_teams :: "routing \<Rightarrow> ProjectJob \<Rightarrow> owner list \<Rightarrow> routing" where
  "notify_teams m job [] = m"
| "notify_teams m job ((kind, owner) # job_owners) =
     notify_teams (if kind = ''TEAM'' then notify m owner job else m) job job_owners"

text \<open>
  The second loop, over \<^verbatim>\<open>failed_jobs.all_non_infra_failures()\<close>. The argument
  \<open>owners_of\<close> is \<^verbatim>\<open>owners.of\<close> of the table read from the owners file.
\<close>

fun notify_owners :: "(string \<Rightarrow> owner list) \<Rightarrow> routing \<Rightarrow> ProjectJob list \<Rightarrow> routing" where
  "notify_owners owners_of m [] = m"
| "notify_owners owners_of m (job # jobs) =
     notify_owners owners_of (notify_teams m job (owners_of (name job))) jobs"

definition find_job_owners :: "(string \<Rightarrow> owner list) \<Rightarrow> FailedJobs \<Rightarrow> routing" where
  "find_job_owners owners_of failed_jobs =
     notify_owners owners_of
       (notify_e2e Map.empty (mandatory_infra_job_failures failed_jobs))
       (all_non_infra_failures failed_jobs)"

text \<open>The jobs in an owner's bucket; an owner without a bucket has none.\<close>

definition bucket :: "routing \<Rightarrow> string \<Rightarrow> ProjectJob list" where
  "bucket m owner = (case m owner of None \<Rightarrow> [] | Some b \<Rightarrow> b)"

text \<open>
  Removing a team from the owners table: the table answers as before, without the
  \<^verbatim>\<open>TEAM\<close> entries of that team.
\<close>

definition remove_team :: "string \<Rightarrow> (string \<Rightarrow> owner list) \<Rightarrow> string \<Rightarrow> owner list" where
  "remove_team team owners_of key = filter (\<lambda>ko. ko \<noteq> (''TEAM'', team)) (owners_of key)"

subsection \<open>Test results: \<^verbatim>\<open>get_failed_tests\<close>\<close>

text \<open>
  The values \<^verbatim>\<open>json.loads\<close> returns: \<^verbatim>\<open>None\<close>, booleans, numbers, strings, lists and
  dictionaries. A number is the rational it denotes (Python compares an \<^verbatim>\<open>int\<close> and a
  finite \<^verbatim>\<open>float\<close> by value); the non-finite floats are left out. A dictionary is the
  list of its items.
\<close>

datatype json =
  JNull | JBool bool | JNum rat | JStr string | JArr "json list" | JObj "(string \<times> json) list"

text \<open>The exceptions the module can raise.\<close>

datatype py_error = JSONDecodeError | KeyError | TypeError | ValueError | AttributeError

text \<open>
  What a dictionary sees of a hashable value. Python's equality identifies \<^verbatim>\<open>True\<close>
  with \<^verbatim>\<open>1\<close> and \<^verbatim>\<open>False\<close> with \<^verbatim>\<open>0\<close>; lists and dictionaries are unhashable.
\<close>

datatype key = KNone | KNum rat | KStr string

fun hash_key :: "json \<Rightarrow> key option" where
  "hash_key JNull = Some KNone"
| "hash_key (JBool b) = Some (KNum (if b then 1 else 0))"
| "hash_key (JNum r) = Some (KNum r)"
| "hash_key (JStr s) = Some (KStr s)"
| "hash_key (JArr xs) = None"
| "hash_key (JObj kvs) = None"

text \<open>The key \<^verbatim>\<open>(package, name)\<close>; hashing the tuple hashes both components.\<close>

definition hash_pair :: "json \<Rightarrow> json \<Rightarrow> (key \<times> key) option" where
  "hash_pair package test_name =
     (case hash_key package of
        None \<Rightarrow> None
      | Some kp \<Rightarrow> (case hash_key test_name of None \<Rightarrow> None | Some kn \<Rightarrow> Some (kp, kn)))"

definition startswith :: "string \<Rightarrow> string \<Rightarrow> bool" where
  "startswith s sub = (take (length sub) s = sub)"

text \<open>\<^verbatim>\<open>sub in s\<close> for two strings: \<open>sub\<close> occurs in \<open>s\<close> as a contiguous piece.\<close>

fun str_contains :: "string \<Rightarrow> string \<Rightarrow> bool" where
  "str_contains sub [] = (sub = [])"
| "str_contains sub (c # cs) = (startswith (c # cs) sub \<or> str_contains sub cs)"

text \<open>
  \<^verbatim>\<open>s in v\<close> for a string \<open>s\<close>: a key of a dictionary, an element of a list, a piece
  of a string; any other operand raises \<^verbatim>\<open>TypeError\<close>.
\<close>

fun py_in :: "string \<Rightarrow> json \<Rightarrow> py_error + bool" where
  "py_in s (JObj kvs) = Inr (map_of kvs s \<noteq> None)"
| "py_in s (JArr xs) = Inr (JStr s \<in> set xs)"
| "py_in s (JStr t) = Inr (str_contains s t)"
| "py_in s JNull = Inl TypeError"
| "py_in s (JBool b) = Inl TypeError"
| "py_in s (JNum r) = Inl TypeError"

text \<open>
  \<^verbatim>\<open>v[k]\<close> for a string \<open>k\<close>: a dictionary without the key raises \<^verbatim>\<open>KeyError\<close>, any
  value that is not a dictionary raises \<^verbatim>\<open>TypeError\<close>.
\<close>

fun getitem :: "json \<Rightarrow> string \<Rightarrow> py_error + json" where
  "getitem (JObj kvs) k = (case map_of kvs k of None \<Rightarrow> Inl KeyError | Some v \<Rightarrow> Inr v)"
| "getitem JNull k = Inl TypeError"
| "getitem (JBool b) k = Inl TypeError"
| "getitem (JNum r) k = Inl TypeError"
| "getitem (JStr t) k = Inl TypeError"
| "getitem (JArr xs) k = Inl TypeError"

text \<open>
  \<^verbatim>\<open>failed_tests\<close>, a dictionary from \<^verbatim>\<open>(package, name)\<close> to the \<^verbatim>\<open>Test\<close> built for it,
  in insertion order: assignment replaces the value of a key that is present and
  appends otherwise, \<^verbatim>\<open>del\<close> removes the key.
\<close>

type_synonym 't failed_tests = "((key \<times> key) \<times> 't) list"

text \<open>
  One iteration of the loop over the lines. \<open>json_loads\<close> is \<^verbatim>\<open>json.loads\<close>, with
  \<open>None\<close> where it raises on a line that is not well-formed JSON. \<open>Test\<close> is the
  constructor \<^verbatim>\<open>Test(owners, name, package)\<close> of \<^verbatim>\<open>tasks.libs.types.types\<close>, which is not
  among the sources, applied to the owners table. The message printed when a test is
  removed is not part of the model.
\<close>

definition scan_line ::
  "(string \<Rightarrow> json option) \<Rightarrow> (json \<Rightarrow> json \<Rightarrow> 't) \<Rightarrow> 't failed_tests \<Rightarrow> string \<Rightarrow>
   py_error + 't failed_tests" where
  "scan_line json_loads Test failed_tests line =
     (case json_loads line of
        None \<Rightarrow> Inl JSONDecodeError
      | Some json_test \<Rightarrow>
          (case py_in ''Test'' json_test of
             Inl e \<Rightarrow> Inl e
           | Inr False \<Rightarrow> Inr failed_tests
           | Inr True \<Rightarrow>
               (case getitem json_test ''Test'' of
                  Inl e \<Rightarrow> Inl e
                | Inr test_name \<Rightarrow>
                    (case getitem json_test ''Package'' of
                       Inl e \<Rightarrow> Inl e
                     | Inr package \<Rightarrow>
                         (case getitem json_test ''Action'' of
                            Inl e \<Rightarrow> Inl e
                          | Inr action \<Rightarrow>
                              if action = JStr ''fail'' then
                                (case py_in ''/'' test_name of
                                   Inl e \<Rightarrow> Inl e
                                 | Inr True \<Rightarrow> Inr failed_tests
                                 | Inr False \<Rightarrow>
                                     (case hash_pair package test_name of
                                        None \<Rightarrow> Inl TypeError
                                      | Some k \<Rightarrow>
                                          Inr (AList.update k (Test test_name package)
                                                 failed_tests)))
                              else if action = JStr ''pass'' then
                                (case hash_pair package test_name of
                                   None \<Rightarrow> Inl TypeError
                                 | Some k \<Rightarrow>
                                     if k \<in> set (map fst failed_tests)
                                     then Inr (AList.delete k failed_tests)
                                     else Inr failed_tests)
                              else Inr failed_tests)))))"

text \<open>The loop \<^verbatim>\<open>for line in test_output.splitlines()\<close>: an exception ends it.\<close>

fun scan_lines ::
  "(string \<Rightarrow> json option) \<Rightarrow> (json \<Rightarrow> json \<Rightarrow> 't) \<Rightarrow> 't failed_tests \<Rightarrow> string list \<Rightarrow>
   py_error + 't failed_tests" where
  "scan_lines json_loads Test failed_tests [] = Inr failed_tests"
| "scan_lines json_loads Test failed_tests (line # lines) =
     (case scan_line json_loads Test failed_tests line of
        Inl e \<Rightarrow> Inl e
      | Inr failed_tests' \<Rightarrow> scan_lines json_loads Test failed_tests' lines)"


text \<open>
  The key a line records as failed, and the key a line reports as passed, read off the
  decoded event: it is a dictionary with the entries \<^verbatim>\<open>Test\<close>, \<^verbatim>\<open>Package\<close> and
  \<^verbatim>\<open>Action\<close>.
\<close>

definition event_key :: "(string \<Rightarrow> json option) \<Rightarrow> string \<Rightarrow> string \<Rightarrow> (key \<times> key) option" where
  "event_key json_loads action line =
     (case json_loads line of
        Some (JObj kvs) \<Rightarrow>
          (case (map_of kvs ''Test'', map_of kvs ''Package'', map_of kvs ''Action'') of
             (Some test_name, Some package, Some a) \<Rightarrow>
               if a = JStr action then hash_pair package test_name else None
           | _ \<Rightarrow> None)
      | _ \<Rightarrow> None)"

text \<open>Entries are only ever made for tests whose name is a string without \<^verbatim>\<open>/\<close>.\<close>

definition parent_entry :: "(json \<Rightarrow> json \<Rightarrow> 't) \<Rightarrow> (key \<times> key) \<times> 't \<Rightarrow> bool" where
  "parent_entry Test e \<longleftrightarrow>
     (\<exists>s package kp. e = ((kp, KStr s), Test (JStr s) package) \<and>
        hash_key package = Some kp \<and> CHR ''/'' \<notin> set s)"

subsection \<open>Channel and project maps: \<^verbatim>\<open>load_and_validate\<close>\<close>

text \<open>
  The values \<^verbatim>\<open>yaml.safe_load\<close> returns, as far as the loader tells them apart: strings
  and everything else. A mapping is the list of its items, whose keys may be any value.
\<close>

datatype yaml =
  YNull | YBool bool | YNum rat | YStr string | YSeq "yaml list" | YMap "(yaml \<times> yaml) list"

text \<open>
  The exceptions of the loader. \<open>LoadValueError key value\<close> is the \<^verbatim>\<open>ValueError\<close> whose
  message names the offending key and value; \<open>LoadAttributeError\<close> is raised by
  \<^verbatim>\<open>.items()\<close> on a document that is not a mapping.
\<close>

datatype load_error = LoadValueError yaml yaml | LoadAttributeError

text \<open>\<^verbatim>\<open>isinstance(v, str)\<close>\<close>

fun is_str :: "yaml \<Rightarrow> bool" where
  "is_str (YStr s) = True"
| "is_str YNull = False"
| "is_str (YBool b) = False"
| "is_str (YNum r) = False"
| "is_str (YSeq xs) = False"
| "is_str (YMap kvs) = False"

text \<open>
  The loop over \<^verbatim>\<open>yaml.safe_load(file_stream).items()\<close>; \<open>result\<close> is the dictionary
  built so far, in insertion order.
\<close>

fun load_items ::
  "string \<Rightarrow> string \<Rightarrow> (string \<times> string) list \<Rightarrow> (yaml \<times> yaml) list \<Rightarrow>
   load_error + (string \<times> string) list" where
  "load_items default_placeholder default_value result [] = Inr result"
| "load_items default_placeholder default_value result ((YStr key, YStr v) # items) =
     load_items default_placeholder default_value
       (AList.update key (if v = default_placeholder then default_value else v) result) items"
| "load_items default_placeholder default_value result ((key, v) # items) =
     Inl (LoadValueError key v)"

text \<open>
  \<^verbatim>\<open>load_and_validate\<close>, applied to the document that \<^verbatim>\<open>yaml.safe_load\<close> read from the
  file; finding and opening the file is outside the model.
\<close>

definition load_and_validate ::
  "yaml \<Rightarrow> string \<Rightarrow> string \<Rightarrow> load_error + (string \<times> string) list" where
  "load_and_validate document default_placeholder default_value =
     (case document of
        YMap items \<Rightarrow> load_items default_placeholder default_value [] items
      | _ \<Rightarrow> Inl LoadAttributeError)"

definition DATADOG_AGENT_GITHUB_ORG_URL :: string where
  "DATADOG_AGENT_GITHUB_ORG_URL = ''https://github.com/DataDog''"

definition DEFAULT_SLACK_CHANNEL :: string where
  "DEFAULT_SLACK_CHANNEL = ''#agent-developer-experience''"

definition DEFAULT_JIRA_PROJECT :: string where
  "DEFAULT_JIRA_PROJECT = ''AGNTR''"

subsection \<open>Registry audit: \<^verbatim>\<open>check_for_missing_owners_slack_and_jira\<close>\<close>

text \<open>
  An entry of \<^verbatim>\<open>owners.paths\<close>: the audit reads its component \<^verbatim>\<open>path[2]\<close>, the list of
  owners, and nothing else.
\<close>

type_synonym path_entry = "string \<times> string \<times> owner list"

definition path_owners :: "path_entry \<Rightarrow> owner list" where
  "path_owners path = snd (snd path)"

definition slack_message :: "string \<Rightarrow> string" where
  "slack_message team = ''The team '' @ team @ '' doesn't have a slack team assigned !!''"

definition jira_message :: "string \<Rightarrow> string" where
  "jira_message team = ''The team '' @ team @ '' doesn't have a jira project assigned !!''"

text \<open>
  One iteration of the loop over \<^verbatim>\<open>owners.paths\<close>. The state is the flag \<^verbatim>\<open>error\<close>
  and the lines printed so far. The maps are the module's \<^verbatim>\<open>GITHUB_SLACK_MAP\<close> and
  \<^verbatim>\<open>GITHUB_JIRA_MAP\<close>, the results of \<^verbatim>\<open>load_and_validate\<close>. The argument \<open>lower\<close> is
  Python's \<^verbatim>\<open>str.lower()\<close>, which follows Unicode's case mapping; the audit is modelled
  for whatever that function answers.
\<close>

definition check_path ::
  "(string \<Rightarrow> string) \<Rightarrow> bool \<Rightarrow> (string \<times> string) list \<Rightarrow> (string \<times> string) list \<Rightarrow>
   bool \<times> string list \<Rightarrow> path_entry \<Rightarrow> bool \<times> string list" where
  "check_path lower print_missing_teams GITHUB_SLACK_MAP GITHUB_JIRA_MAP state path =
     (case path_owners path of
        [] \<Rightarrow> state
      | (kind, team) # others \<Rightarrow>
          if kind \<noteq> ''TEAM'' then state
          else
            let state1 =
                  (if lower team \<notin> set (map fst GITHUB_SLACK_MAP)
                   then (True, if print_missing_teams
                               then snd state @ [slack_message team] else snd state)
                   else state);
                state2 =
                  (if lower team \<notin> set (map fst GITHUB_JIRA_MAP)
                   then (True, if print_missing_teams
                               then snd state1 @ [jira_message team] else snd state1)
                   else state1)
            in state2)"

text \<open>The audit returns \<^verbatim>\<open>error\<close>; the model returns the printed lines with it.\<close>

definition check_for_missing_owners_slack_and_jira ::
  "(string \<Rightarrow> string) \<Rightarrow> bool \<Rightarrow> (string \<times> string) list \<Rightarrow> (string \<times> string) list \<Rightarrow>
   path_entry list \<Rightarrow> bool \<times> string list" where
  "check_for_missing_owners_slack_and_jira lower print_missing_teams GITHUB_SLACK_MAP
       GITHUB_JIRA_MAP paths =
     foldl (check_path lower print_missing_teams GITHUB_SLACK_MAP GITHUB_JIRA_MAP) (False, [])
       paths"

text \<open>The first-listed owner of a path when it is a team.\<close>

definition first_team :: "path_entry \<Rightarrow> string option" where
  "first_team path =
     (case path_owners path of
        [] \<Rightarrow> None
      | (kind, team) # others \<Rightarrow> if kind = ''TEAM'' then Some team else None)"

text \<open>The diagnostics one path gives rise to.\<close>

definition path_diagnostics ::
  "(string \<Rightarrow> string) \<Rightarrow> (string \<times> string) list \<Rightarrow> (string \<times> string) list \<Rightarrow>
   path_entry \<Rightarrow> string list" where
  "path_diagnostics lower GITHUB_SLACK_MAP GITHUB_JIRA_MAP path =
     (case first_team path of
        None \<Rightarrow> []
      | Some team \<Rightarrow>
          (if lower team \<notin> set (map fst GITHUB_SLACK_MAP) then [slack_message team] else []) @
          (if lower team \<notin> set (map fst GITHUB_JIRA_MAP) then [jira_message team] else []))"

subsection \<open>Message composition: \<^verbatim>\<open>get_pr_from_commit\<close> and \<^verbatim>\<open>base_message\<close>\<close>

text \<open>How an f-string renders a value that may be \<^verbatim>\<open>None\<close>.\<close>

definition fstr :: "string option \<Rightarrow> string" where
  "fstr v = (case v of None \<Rightarrow> ''None'' | Some s \<Rightarrow> s)"

definition is_digit :: "char \<Rightarrow> bool" where
  "is_digit c \<longleftrightarrow> c \<in> set ''0123456789''"

text \<open>
  \<^verbatim>\<open>re.search(r'.*\(#([0-9]*)\)$', commit_title)\<close>. The search may start anywhere and
  \<^verbatim>\<open>.*\<close> may be empty, so the pattern constrains only the end of the title: \<^verbatim>\<open>$\<close> stands
  at the end of the string or before a newline that ends it, the character before must
  be \<^verbatim>\<open>)\<close>, before it a run of digits, before that \<^verbatim>\<open>(#\<close>. As \<^verbatim>\<open>#\<close> is no digit, group 1
  is the whole run of digits. The title is read from its end.
\<close>

definition get_pr_from_commit :: "string \<Rightarrow> string option \<Rightarrow> (string \<times> string) option" where
  "get_pr_from_commit commit_title project_title =
     (let r = rev commit_title;
          r = (case r of c # cs \<Rightarrow> if c = CHR 0x0A then cs else r | [] \<Rightarrow> r)
      in case r of
           c # cs \<Rightarrow>
             if c = CHR '')'' then
               (let parsed_pr_id = rev (takeWhile is_digit cs)
                in case dropWhile is_digit cs of
                     h # p # before \<Rightarrow>
                       if h = CHR ''#'' \<and> p = CHR ''('' then
                         Some (parsed_pr_id,
                               DATADOG_AGENT_GITHUB_ORG_URL @ ''/'' @ fstr project_title @
                               ''/pull/'' @ parsed_pr_id)
                       else None
                   | _ \<Rightarrow> None)
             else None
         | [] \<Rightarrow> None)"

text \<open>
  \<^verbatim>\<open>s.replace(old, new)\<close>: the occurrences of \<open>old\<close> are found from the left and do not
  overlap. \<open>replace_from\<close> is the scan for a non-empty \<open>old\<close>; with an empty \<open>old\<close>,
  \<open>new\<close> is put before every character and at the end.
\<close>

fun replace_from :: "string \<Rightarrow> string \<Rightarrow> string \<Rightarrow> string" where
  "replace_from old new [] = []"
| "replace_from old new (c # cs) =
     (if startswith (c # cs) old
      then new @ replace_from old new (drop (length old - 1) cs)
      else c # replace_from old new cs)"

definition str_replace :: "string \<Rightarrow> string \<Rightarrow> string \<Rightarrow> string" where
  "str_replace s old new =
     (if old = [] then new @ concat (map (\<lambda>c. c # new) s) else replace_from old new s)"


text \<open>
  The variable \<^verbatim>\<open>enhanced_commit_title\<close> of \<^verbatim>\<open>base_message\<close>, from the commit title and
  the project title.
\<close>

definition enhanced_commit_title :: "string \<Rightarrow> string option \<Rightarrow> string" where
  "enhanced_commit_title commit_title project_title =
     (case get_pr_from_commit commit_title project_title of
        None \<Rightarrow> commit_title
      | Some (parsed_pr_id, pr_url_github) \<Rightarrow>
          str_replace commit_title (''#'' @ parsed_pr_id)
            (''<'' @ pr_url_github @ ''|#'' @ parsed_pr_id @ ''>''))"


subsection \<open>Example data\<close>

definition example_owners_of :: "string \<Rightarrow> owner list" where
  "example_owners_of key =
     (if key = ''tests_deb-x64-py3''
      then [(''USERNAME'', ''@some-user''), (''TEAM'', ''@DataDog/agent-platform''),
            (''TEAM'', ''@DataDog/agent-shared-components'')]
      else if key = ''lint_linux-x64'' then [(''USERNAME'', ''@some-user'')]
      else [])"

definition example_test_job :: ProjectJob where
  "example_test_job =
     \<lparr>name = ''tests_deb-x64-py3'', job_id = 11, failure_reason = GENERIC_TEST_FAILURE,
      mandatory = True, infra = False\<rparr>"

definition example_lint_job :: ProjectJob where
  "example_lint_job =
     \<lparr>name = ''lint_linux-x64'', job_id = 12, failure_reason = GENERIC_TEST_FAILURE,
      mandatory = False, infra = False\<rparr>"

definition example_e2e_job :: ProjectJob where
  "example_e2e_job =
     \<lparr>name = ''new-e2e-agent-shared-components'', job_id = 7,
      failure_reason = E2E_INFRA_FAILURE, mandatory = True, infra = True\<rparr>"

definition example_failed_jobs :: FailedJobs where
  "example_failed_jobs = [example_test_job, example_e2e_job, example_lint_job]"

text \<open>A test-result stream and its decoding.\<close>

definition fail_T1 :: string where
  \<open>fail_T1 = ''{"Action":"fail","Package":"pkgA","Test":"T1"}''\<close>

definition fail_T2 :: string where
  \<open>fail_T2 = ''{"Action":"fail","Package":"pkgA","Test":"T2"}''\<close>

definition pass_T1 :: string where
  \<open>pass_T1 = ''{"Action":"pass","Package":"pkgA","Test":"T1"}''\<close>

definition fail_sub :: string where
  \<open>fail_sub = ''{"Action":"fail","Package":"pkgA","Test":"T3/case"}''\<close>

definition bad_line :: string where
  \<open>bad_line = ''{"Action":"fail",''\<close>

definition event :: "string \<Rightarrow> string \<Rightarrow> string \<Rightarrow> json" where
  "event action package test_name =
     JObj [(''Action'', JStr action), (''Package'', JStr package), (''Test'', JStr test_name)]"

definition example_json_loads :: "string \<Rightarrow> json option" where
  "example_json_loads line =
     (if line = fail_T1 then Some (event ''fail'' ''pkgA'' ''T1'')
      else if line = fail_T2 then Some (event ''fail'' ''pkgA'' ''T2'')
      else if line = pass_T1 then Some (event ''pass'' ''pkgA'' ''T1'')
      else if line = fail_sub then Some (event ''fail'' ''pkgA'' ''T3/case'')
      else None)"

definition example_Test :: "json \<Rightarrow> json \<Rightarrow> json \<times> json" where
  "example_Test test_name package = (test_name, package)"

text \<open>Sources of the channel map, and an owners table for the audit.\<close>

definition example_slack_entries :: "(string \<times> string) list" where
  "example_slack_entries =
     [(''@datadog/agent-platform'', ''#agent-platform''),
      (''@datadog/agent-ci-experience'', ''DEFAULT_SLACK_CHANNEL'')]"

definition example_bad_source :: "(yaml \<times> yaml) list" where
  "example_bad_source =
     [(YStr ''@datadog/agent-platform'', YStr ''#agent-platform''),
      (YStr ''@datadog/container-integrations'', YNum 42),
      (YNull, YStr ''#nobody'')]"

definition example_jira_map :: "(string \<times> string) list" where
  "example_jira_map = [(''@datadog/agent-ci-experience'', ''ACIX'')]"

definition example_slack_map :: "(string \<times> string) list" where
  "example_slack_map =
     [(''@datadog/agent-platform'', ''#agent-platform''),
      (''@datadog/agent-ci-experience'', ''#agent-developer-experience'')]"

definition example_paths :: "path_entry list" where
  "example_paths =
     [(''/pkg/new/'', ''/pkg/new/'', [(''TEAM'', ''@DataDog/new-team'')]),
      (''/cmd/new/'', ''/cmd/new/'', [(''TEAM'', ''@DataDog/new-team''), (''USERNAME'', ''@bob'')]),
      (''/omnibus/'', ''/omnibus/'', [(''TEAM'', ''@DataDog/agent-platform'')]),
      (''/tasks/'', ''/tasks/'', [(''TEAM'', ''@DataDog/agent-ci-experience'')]),
      (''/docs/'', ''/docs/'', [(''USERNAME'', ''@bob''), (''TEAM'', ''@DataDog/new-team'')]),
      (''/misc/'', ''/misc/'', [])]"

text \<open>
  \<^verbatim>\<open>str.lower()\<close> on a string of ASCII characters: the letters \<^verbatim>\<open>A\<close> to \<^verbatim>\<open>Z\<close> are lowered
  and every other ASCII character is kept. The team handles of the examples are ASCII,
  and there this function is \<^verbatim>\<open>str.lower()\<close>; it says nothing about other characters.
\<close>

definition lower_char :: "char \<Rightarrow> char" where
  "lower_char c =
     (case map_of (zip ''ABCDEFGHIJKLMNOPQRSTUVWXYZ'' ''abcdefghijklmnopqrstuvwxyz'') c of
        None \<Rightarrow> c
      | Some l \<Rightarrow> l)"

definition ascii_lower :: "string \<Rightarrow> string" where
  "ascii_lower s = map lower_char s"

text \<open>
  A mandatory job whose reason is the e2e infrastructure failure and which is not
  classed as an infra failure, and an infra failure whose name has two teams in the
  owners table.
\<close>

definition example_unclassed_job :: ProjectJob where
  "example_unclassed_job =
     \<lparr>name = ''new-e2e-containers'', job_id = 8, failure_reason = E2E_INFRA_FAILURE,
      mandatory = True, infra = False\<rparr>"

definition example_runner_job :: ProjectJob where
  "example_runner_job =
     \<lparr>name = ''tests_deb-x64-py3'', job_id = 13, failure_reason = OTHER_INFRA_FAILURE,
      mandatory = True, infra = True\<rparr>"

section \<open>Properties of the routing\<close>

lemma bucket_notify:
  "bucket (notify m owner job) x = (if x = owner then bucket m x @ [job] else bucket m x)"
  by (simp add: bucket_def notify_def add_failed_job_def FailedJobs_new_def split: option.split)

lemma bucket_notify_e2e:
  "bucket (notify_e2e m jobs) x =
     bucket m x @ (if x = fallback_owner
                   then filter (\<lambda>j. failure_reason j = E2E_INFRA_FAILURE) jobs else [])"
  by (induction jobs arbitrary: m) (simp_all add: bucket_notify)

lemma bucket_notify_teams:
  "bucket (notify_teams m job os) x =
     bucket m x @ map (\<lambda>_. job) (filter (\<lambda>ko. ko = (''TEAM'', x)) os)"
proof (induction os arbitrary: m)
  case Nil
  show ?case by simp
next
  case (Cons ko os)
  obtain kind owner where ko: "ko = (kind, owner)" by (cases ko)
  show ?case unfolding ko by (simp add: Cons.IH bucket_notify)
qed

lemma bucket_notify_owners:
  "bucket (notify_owners owners_of m jobs) x =
     bucket m x @
     concat (map (\<lambda>j. map (\<lambda>_. j) (filter (\<lambda>ko. ko = (''TEAM'', x)) (owners_of (name j)))) jobs)"
  by (induction jobs arbitrary: m) (simp_all add: bucket_notify_teams)

lemma bucket_empty [simp]: "bucket Map.empty x = []"
  by (simp add: bucket_def)

lemma bucket_find_job_owners:
  "bucket (find_job_owners owners_of failed_jobs) x =
     (if x = fallback_owner
      then filter (\<lambda>j. failure_reason j = E2E_INFRA_FAILURE)
             (mandatory_infra_job_failures failed_jobs)
      else []) @
     concat (map (\<lambda>j. map (\<lambda>_. j) (filter (\<lambda>ko. ko = (''TEAM'', x)) (owners_of (name j))))
               (all_non_infra_failures failed_jobs))"
  by (simp add: find_job_owners_def bucket_notify_owners bucket_notify_e2e)

text \<open>Every bucket that exists holds at least one job.\<close>

lemma notify_nonempty:
  "\<forall>x b. m x = Some b \<longrightarrow> b \<noteq> [] \<Longrightarrow> \<forall>x b. notify m owner job x = Some b \<longrightarrow> b \<noteq> []"
  by (simp add: notify_def add_failed_job_def)

lemma notify_e2e_nonempty:
  "\<forall>x b. m x = Some b \<longrightarrow> b \<noteq> [] \<Longrightarrow> \<forall>x b. notify_e2e m jobs x = Some b \<longrightarrow> b \<noteq> []"
proof (induction jobs arbitrary: m)
  case Nil
  then show ?case by simp
next
  case (Cons job jobs)
  show ?case
    using Cons.IH [OF notify_nonempty [OF Cons.prems]] Cons.IH [OF Cons.prems]
    by simp
qed

lemma notify_teams_nonempty:
  "\<forall>x b. m x = Some b \<longrightarrow> b \<noteq> [] \<Longrightarrow> \<forall>x b. notify_teams m job os x = Some b \<longrightarrow> b \<noteq> []"
proof (induction os arbitrary: m)
  case Nil
  then show ?case by simp
next
  case (Cons ko os)
  obtain kind owner where ko: "ko = (kind, owner)" by (cases ko)
  show ?case
    unfolding ko
    using Cons.IH [OF notify_nonempty [OF Cons.prems]] Cons.IH [OF Cons.prems]
    by simp
qed

lemma notify_owners_nonempty:
  "\<forall>x b. m x = Some b \<longrightarrow> b \<noteq> [] \<Longrightarrow>
   \<forall>x b. notify_owners owners_of m jobs x = Some b \<longrightarrow> b \<noteq> []"
proof (induction jobs arbitrary: m)
  case Nil
  then show ?case by simp
next
  case (Cons job jobs)
  show ?case
    using Cons.IH [OF notify_teams_nonempty [OF Cons.prems]] by simp
qed

lemma find_job_owners_nonempty:
  "find_job_owners owners_of failed_jobs x = Some b \<Longrightarrow> b \<noteq> []"
proof -
  have "\<forall>x b. (Map.empty :: routing) x = Some b \<longrightarrow> b \<noteq> []" by simp
  from notify_owners_nonempty [OF notify_e2e_nonempty [OF this]]
  show "find_job_owners owners_of failed_jobs x = Some b \<Longrightarrow> b \<noteq> []"
    unfolding find_job_owners_def by blast
qed

lemma find_job_owners_None_iff:
  "find_job_owners owners_of failed_jobs x = None \<longleftrightarrow>
   bucket (find_job_owners owners_of failed_jobs) x = []"
  using find_job_owners_nonempty [of owners_of failed_jobs x]
  by (auto simp: bucket_def split: option.splits)

lemma find_job_owners_bucket:
  "find_job_owners owners_of failed_jobs x =
     (if bucket (find_job_owners owners_of failed_jobs) x = [] then None
      else Some (bucket (find_job_owners owners_of failed_jobs) x))"
  using find_job_owners_nonempty [of owners_of failed_jobs x]
  by (auto simp: bucket_def split: option.splits)

lemma all_non_infra_failures_not_infra:
  "job \<in> set (all_non_infra_failures failed_jobs) \<Longrightarrow> \<not> infra job"
  by (simp add: all_non_infra_failures_def)

lemma mandatory_infra_job_failures_infra:
  "job \<in> set (mandatory_infra_job_failures failed_jobs) \<Longrightarrow> infra job"
  by (simp add: mandatory_infra_job_failures_def)

lemma set_bucket_find_job_owners:
  "job \<in> set (bucket (find_job_owners owners_of failed_jobs) x) \<longleftrightarrow>
     (x = fallback_owner \<and> job \<in> set (mandatory_infra_job_failures failed_jobs) \<and>
      failure_reason job = E2E_INFRA_FAILURE) \<or>
     (job \<in> set (all_non_infra_failures failed_jobs) \<and>
      (''TEAM'', x) \<in> set (owners_of (name job)))"
  by (auto simp: bucket_find_job_owners)

subsection \<open>The fallback owner of e2e infrastructure failures\<close>

text \<open>
  C1, as the code has it. The first loop runs over \<^verbatim>\<open>mandatory_infra_job_failures\<close>, the
  jobs that are mandatory and classed as infra failures. Whatever the owners table
  answers (\<open>owners_of\<close> is arbitrary, so it may have no entry for the job's name), every
  job among them whose failure reason is the e2e infrastructure failure is in the bucket
  of the fixed owner \<^verbatim>\<open>@DataDog/agent-e2e-testing\<close> in the result of \<open>find_job_owners\<close>.
\<close>

theorem e2e_infra_failure_routed_to_fallback:
  assumes "job \<in> set (mandatory_infra_job_failures failed_jobs)"
    and "failure_reason job = E2E_INFRA_FAILURE"
  shows "\<exists>b. find_job_owners owners_of failed_jobs ''@DataDog/agent-e2e-testing'' = Some b \<and>
             job \<in> set b"
proof -
  let ?r = "find_job_owners owners_of failed_jobs"
  have "job \<in> set (bucket ?r fallback_owner)"
    using assms by (simp add: set_bucket_find_job_owners)
  then obtain b where "?r fallback_owner = Some b" and "job \<in> set b"
    by (cases "?r fallback_owner") (simp_all add: bucket_def)
  then show ?thesis
    by (simp add: fallback_owner_def)
qed

theorem e2e_infra_failure_routed_to_fallback_witness:
  "example_e2e_job \<in> set (mandatory_infra_job_failures example_failed_jobs) \<and>
   failure_reason example_e2e_job = E2E_INFRA_FAILURE \<and>
   (\<exists>b. find_job_owners (\<lambda>key. []) example_failed_jobs ''@DataDog/agent-e2e-testing'' = Some b \<and>
        example_e2e_job \<in> set b)"
proof -
  have h1: "example_e2e_job \<in> set (mandatory_infra_job_failures example_failed_jobs)"
    by (simp add: mandatory_infra_job_failures_def example_failed_jobs_def example_e2e_job_def)
  have h2: "failure_reason example_e2e_job = E2E_INFRA_FAILURE"
    by (simp add: example_e2e_job_def)
  from e2e_infra_failure_routed_to_fallback [OF h1 h2, of "\<lambda>key. []"] h1 h2
  show ?thesis by blast
qed

text \<open>
  A mandatory job with that reason which is not classed as an infra failure is not in
  \<^verbatim>\<open>mandatory_infra_job_failures\<close>: the fallback owner gets no bucket for it.
\<close>

theorem mandatory_e2e_job_not_infra_counterexample:
  "example_unclassed_job \<in> set [example_unclassed_job] \<and>
   mandatory example_unclassed_job \<and>
   failure_reason example_unclassed_job = E2E_INFRA_FAILURE \<and>
   find_job_owners (\<lambda>key. []) [example_unclassed_job] ''@DataDog/agent-e2e-testing'' = None \<and>
   find_job_owners example_owners_of [example_unclassed_job] ''@DataDog/agent-e2e-testing'' =
     None"
  by (simp add: find_job_owners_def mandatory_infra_job_failures_def
      all_non_infra_failures_def example_unclassed_job_def example_owners_of_def)

subsection \<open>Only teams are notified\<close>

text \<open>
  C4. A job that is not an infra failure is found only in buckets of owners that the
  table lists for its name with kind \<^verbatim>\<open>TEAM\<close>; an owner has a bucket only if it is
  the fallback owner or a \<^verbatim>\<open>TEAM\<close> owner of some non-infra failure, so an owner listed
  with another kind (such as \<^verbatim>\<open>USERNAME\<close>) gets none from that listing; and a
  non-infra failure whose name has no \<^verbatim>\<open>TEAM\<close> owner is in no bucket at all. The
  routing is a total function: dropping a job is not an error.
\<close>

theorem non_infra_failure_only_in_team_buckets:
  "(\<forall>(job::ProjectJob) x. \<not> infra job \<and> job \<in> set (bucket (find_job_owners owners_of failed_jobs) x) \<longrightarrow>
      job \<in> set (all_non_infra_failures failed_jobs) \<and>
      (''TEAM'', x) \<in> set (owners_of (name job))) \<and>
   (\<forall>x. find_job_owners owners_of failed_jobs x \<noteq> None \<longrightarrow>
      x = fallback_owner \<or>
      (\<exists>job \<in> set (all_non_infra_failures failed_jobs).
         (''TEAM'', x) \<in> set (owners_of (name job)))) \<and>
   (\<forall>job::ProjectJob. \<not> infra job \<and> (\<forall>x. (''TEAM'', x) \<notin> set (owners_of (name job))) \<longrightarrow>
      (\<forall>x. job \<notin> set (bucket (find_job_owners owners_of failed_jobs) x)))"
proof (intro conjI allI impI)
  fix job :: ProjectJob and x
  assume a: "\<not> infra job \<and> job \<in> set (bucket (find_job_owners owners_of failed_jobs) x)"
  then have "job \<notin> set (mandatory_infra_job_failures failed_jobs)"
    using mandatory_infra_job_failures_infra by blast
  with a show "job \<in> set (all_non_infra_failures failed_jobs)"
    and "(''TEAM'', x) \<in> set (owners_of (name job))"
    by (simp_all add: set_bucket_find_job_owners)
next
  fix x
  assume "find_job_owners owners_of failed_jobs x \<noteq> None"
  then have "bucket (find_job_owners owners_of failed_jobs) x \<noteq> []"
    by (simp add: find_job_owners_None_iff)
  then obtain job where "job \<in> set (bucket (find_job_owners owners_of failed_jobs) x)"
    by (cases "bucket (find_job_owners owners_of failed_jobs) x") auto
  then show "x = fallback_owner \<or>
      (\<exists>job \<in> set (all_non_infra_failures failed_jobs).
         (''TEAM'', x) \<in> set (owners_of (name job)))"
    by (auto simp: set_bucket_find_job_owners)
next
  fix job :: ProjectJob and x
  assume a: "\<not> infra job \<and> (\<forall>x. (''TEAM'', x) \<notin> set (owners_of (name job)))"
  then have "job \<notin> set (mandatory_infra_job_failures failed_jobs)"
    using mandatory_infra_job_failures_infra by blast
  with a show "job \<notin> set (bucket (find_job_owners owners_of failed_jobs) x)"
    by (simp add: set_bucket_find_job_owners)
qed

lemma example_non_infra:
  "all_non_infra_failures example_failed_jobs = [example_test_job, example_lint_job]"
  by (simp add: all_non_infra_failures_def example_failed_jobs_def example_test_job_def
      example_e2e_job_def example_lint_job_def)

lemma example_job_facts:
  "\<not> infra example_test_job" "\<not> infra example_lint_job"
  "name example_test_job = ''tests_deb-x64-py3''" "name example_lint_job = ''lint_linux-x64''"
  by (simp_all add: example_test_job_def example_lint_job_def)

theorem non_infra_failure_only_in_team_buckets_witness:
  "\<not> infra example_test_job \<and>
   example_test_job \<in>
     set (bucket (find_job_owners example_owners_of example_failed_jobs)
            ''@DataDog/agent-platform'') \<and>
   (''TEAM'', ''@DataDog/agent-platform'') \<in> set (example_owners_of (name example_test_job)) \<and>
   (''USERNAME'', ''@some-user'') \<in> set (example_owners_of (name example_test_job)) \<and>
   find_job_owners example_owners_of example_failed_jobs ''@some-user'' = None \<and>
   \<not> infra example_lint_job \<and>
   (\<forall>x. (''TEAM'', x) \<notin> set (example_owners_of (name example_lint_job))) \<and>
   (\<forall>x. example_lint_job \<notin> set (bucket (find_job_owners example_owners_of example_failed_jobs) x))"
proof -
  note routed = non_infra_failure_only_in_team_buckets [of example_owners_of example_failed_jobs]
  have in_bucket: "example_test_job \<in>
     set (bucket (find_job_owners example_owners_of example_failed_jobs)
            ''@DataDog/agent-platform'')"
    by (simp add: set_bucket_find_job_owners example_non_infra example_job_facts
        example_owners_of_def)
  have owners: "(''TEAM'', ''@DataDog/agent-platform'') \<in> set (example_owners_of (name example_test_job))"
    "(''USERNAME'', ''@some-user'') \<in> set (example_owners_of (name example_test_job))"
    using routed in_bucket by (simp_all add: example_job_facts example_owners_of_def)
  have no_team: "\<forall>x. (''TEAM'', x) \<notin> set (example_owners_of (name example_lint_job))"
    by (simp add: example_job_facts example_owners_of_def)
  have dropped:
    "\<forall>x. example_lint_job \<notin> set (bucket (find_job_owners example_owners_of example_failed_jobs) x)"
    using routed no_team example_job_facts(2) by simp
  have "''@some-user'' \<noteq> fallback_owner"
    by (simp add: fallback_owner_def)
  moreover have "\<not> (\<exists>job \<in> set (all_non_infra_failures example_failed_jobs).
         (''TEAM'', ''@some-user'') \<in> set (example_owners_of (name job)))"
    by (simp add: example_non_infra example_job_facts example_owners_of_def)
  ultimately have none: "find_job_owners example_owners_of example_failed_jobs ''@some-user'' = None"
    using routed by auto
  show ?thesis
    using in_bucket owners no_team dropped none example_job_facts(1,2) by simp
qed

subsection \<open>Jobs owned by several teams\<close>

lemma bucket_remove_team_other:
  assumes "x \<noteq> team"
  shows "bucket (find_job_owners (remove_team team owners_of) failed_jobs) x =
         bucket (find_job_owners owners_of failed_jobs) x"
proof -
  have "filter (\<lambda>ko. ko = (''TEAM'', x)) (remove_team team owners_of key) =
        filter (\<lambda>ko. ko = (''TEAM'', x)) (owners_of key)" for key
    using assms by (auto simp: remove_team_def intro: filter_cong)
  then show ?thesis
    by (simp add: bucket_find_job_owners)
qed

lemma bucket_remove_team_same:
  "bucket (find_job_owners (remove_team team owners_of) failed_jobs) team =
     (if team = fallback_owner
      then filter (\<lambda>j. failure_reason j = E2E_INFRA_FAILURE)
             (mandatory_infra_job_failures failed_jobs)
      else [])"
proof -
  have "filter (\<lambda>ko. ko = (''TEAM'', team)) (remove_team team owners_of key) = []" for key
    by (auto simp: remove_team_def filter_empty_conv)
  then show ?thesis
    by (simp add: bucket_find_job_owners)
qed

text \<open>
  C6, as the code has it. Only the failures that are not infra failures are looked up in
  the owners table. Such a failure whose name the table resolves to two distinct
  \<^verbatim>\<open>TEAM\<close> owners is in the bucket of each of them. After one of the two teams is
  removed from the table, the job is no longer in that team's bucket, and every other
  owner's bucket, in particular the other team's, is exactly what it was.
\<close>

theorem job_of_two_teams_in_both_buckets:
  assumes "job \<in> set (all_non_infra_failures failed_jobs)"
    and "(''TEAM'', team1) \<in> set (owners_of (name job))"
    and "(''TEAM'', team2) \<in> set (owners_of (name job))"
    and "team1 \<noteq> team2"
  shows "job \<in> set (bucket (find_job_owners owners_of failed_jobs) team1) \<and>
         job \<in> set (bucket (find_job_owners owners_of failed_jobs) team2) \<and>
         job \<notin> set (bucket (find_job_owners (remove_team team1 owners_of) failed_jobs) team1) \<and>
         job \<in> set (bucket (find_job_owners (remove_team team1 owners_of) failed_jobs) team2) \<and>
         (\<forall>x. x \<noteq> team1 \<longrightarrow>
            find_job_owners (remove_team team1 owners_of) failed_jobs x =
            find_job_owners owners_of failed_jobs x)"
proof -
  have both: "job \<in> set (bucket (find_job_owners owners_of failed_jobs) team1)"
    "job \<in> set (bucket (find_job_owners owners_of failed_jobs) team2)"
    using assms by (simp_all add: set_bucket_find_job_owners)
  have "\<not> infra job"
    using assms(1) by (rule all_non_infra_failures_not_infra)
  then have "job \<notin> set (mandatory_infra_job_failures failed_jobs)"
    using mandatory_infra_job_failures_infra by blast
  then have gone:
    "job \<notin> set (bucket (find_job_owners (remove_team team1 owners_of) failed_jobs) team1)"
    by (simp add: bucket_remove_team_same)
  have same: "find_job_owners (remove_team team1 owners_of) failed_jobs x =
      find_job_owners owners_of failed_jobs x" if "x \<noteq> team1" for x
    using bucket_remove_team_other [OF that, of owners_of failed_jobs]
    by (simp add: find_job_owners_bucket [of _ _ x])
  have "job \<in> set (bucket (find_job_owners (remove_team team1 owners_of) failed_jobs) team2)"
    using both(2) assms(4) by (simp add: bucket_remove_team_other)
  with both gone same show ?thesis
    by blast
qed

theorem job_of_two_teams_in_both_buckets_witness:
  "example_test_job \<in> set (all_non_infra_failures example_failed_jobs) \<and>
   (''TEAM'', ''@DataDog/agent-platform'') \<in> set (example_owners_of (name example_test_job)) \<and>
   (''TEAM'', ''@DataDog/agent-shared-components'')
     \<in> set (example_owners_of (name example_test_job)) \<and>
   ''@DataDog/agent-platform'' \<noteq> ''@DataDog/agent-shared-components'' \<and>
   example_test_job \<in>
     set (bucket (find_job_owners example_owners_of example_failed_jobs)
            ''@DataDog/agent-platform'') \<and>
   example_test_job \<in>
     set (bucket (find_job_owners example_owners_of example_failed_jobs)
            ''@DataDog/agent-shared-components'') \<and>
   example_test_job \<notin>
     set (bucket (find_job_owners (remove_team ''@DataDog/agent-platform'' example_owners_of)
                    example_failed_jobs) ''@DataDog/agent-platform'') \<and>
   find_job_owners (remove_team ''@DataDog/agent-platform'' example_owners_of)
     example_failed_jobs ''@DataDog/agent-shared-components'' =
   find_job_owners example_owners_of example_failed_jobs ''@DataDog/agent-shared-components''"
proof -
  have h1: "example_test_job \<in> set (all_non_infra_failures example_failed_jobs)"
    by (simp add: example_non_infra)
  have h2: "(''TEAM'', ''@DataDog/agent-platform'') \<in> set (example_owners_of (name example_test_job))"
    by (simp add: example_job_facts example_owners_of_def)
  have h3: "(''TEAM'', ''@DataDog/agent-shared-components'')
     \<in> set (example_owners_of (name example_test_job))"
    by (simp add: example_job_facts example_owners_of_def)
  have h4: "''@DataDog/agent-platform'' \<noteq> ''@DataDog/agent-shared-components''"
    by simp
  note both = job_of_two_teams_in_both_buckets
         [of example_test_job example_failed_jobs "''@DataDog/agent-platform''"
             example_owners_of "''@DataDog/agent-shared-components''", OF h1 h2 h3 h4]
  have h5: "''@DataDog/agent-shared-components'' \<noteq> ''@DataDog/agent-platform''"
    by simp
  from both h5 have same:
    "find_job_owners (remove_team ''@DataDog/agent-platform'' example_owners_of)
       example_failed_jobs ''@DataDog/agent-shared-components'' =
     find_job_owners example_owners_of example_failed_jobs ''@DataDog/agent-shared-components''"
    by (elim conjE allE [of _ "''@DataDog/agent-shared-components''"] impE) assumption+
  from both same h1 h2 h3 h4 show ?thesis
    by simp
qed

text \<open>
  An infra failure is not looked up in the owners table: although its name has two
  teams there, neither team gets a bucket.
\<close>

theorem infra_job_of_two_teams_counterexample:
  "example_runner_job \<in> set [example_runner_job] \<and>
   (''TEAM'', ''@DataDog/agent-platform'') \<in> set (example_owners_of (name example_runner_job)) \<and>
   (''TEAM'', ''@DataDog/agent-shared-components'')
     \<in> set (example_owners_of (name example_runner_job)) \<and>
   ''@DataDog/agent-platform'' \<noteq> ''@DataDog/agent-shared-components'' \<and>
   find_job_owners example_owners_of [example_runner_job] ''@DataDog/agent-platform'' = None \<and>
   find_job_owners example_owners_of [example_runner_job]
     ''@DataDog/agent-shared-components'' = None \<and>
   example_runner_job \<notin>
     set (bucket (find_job_owners example_owners_of [example_runner_job])
            ''@DataDog/agent-platform'')"
  by (simp add: find_job_owners_def mandatory_infra_job_failures_def
      all_non_infra_failures_def example_runner_job_def example_owners_of_def bucket_def)

section \<open>Properties of the test-result parser\<close>

lemmas example_lines_defs = fail_T1_def fail_T2_def pass_T1_def fail_sub_def bad_line_def

lemma example_json_loads_simps:
  "example_json_loads fail_T1 = Some (event ''fail'' ''pkgA'' ''T1'')"
  "example_json_loads fail_T2 = Some (event ''fail'' ''pkgA'' ''T2'')"
  "example_json_loads pass_T1 = Some (event ''pass'' ''pkgA'' ''T1'')"
  "example_json_loads fail_sub = Some (event ''fail'' ''pkgA'' ''T3/case'')"
  "example_json_loads bad_line = None"
  by (simp_all add: example_json_loads_def example_lines_defs)

lemma str_contains_slash: "str_contains ''/'' s \<longleftrightarrow> CHR ''/'' \<in> set s"
  by (induction s) (auto simp: startswith_def)

lemma scan_line_event:
  "json_loads line = Some (event action package test_name) \<Longrightarrow>
   scan_line json_loads Test failed_tests line =
     (if action = ''fail'' then
        (if CHR ''/'' \<in> set test_name then Inr failed_tests
         else Inr (AList.update (KStr package, KStr test_name)
                     (Test (JStr test_name) (JStr package)) failed_tests))
      else if action = ''pass'' then
        (if (KStr package, KStr test_name) \<in> set (map fst failed_tests)
         then Inr (AList.delete (KStr package, KStr test_name) failed_tests)
         else Inr failed_tests)
      else Inr failed_tests)"
  by (simp add: scan_line_def event_def hash_pair_def str_contains_slash)

lemmas example_scan_line =
  scan_line_event [of example_json_loads fail_T1, OF example_json_loads_simps(1)]
  scan_line_event [of example_json_loads fail_T2, OF example_json_loads_simps(2)]
  scan_line_event [of example_json_loads pass_T1, OF example_json_loads_simps(3)]
  scan_line_event [of example_json_loads fail_sub, OF example_json_loads_simps(4)]



lemma scan_line_JObj:
  "json_loads line = Some (JObj kvs) \<Longrightarrow>
   scan_line json_loads Test failed_tests line =
     (case map_of kvs ''Test'' of
        None \<Rightarrow> Inr failed_tests
      | Some test_name \<Rightarrow>
          (case map_of kvs ''Package'' of
             None \<Rightarrow> Inl KeyError
           | Some package \<Rightarrow>
               (case map_of kvs ''Action'' of
                  None \<Rightarrow> Inl KeyError
                | Some action \<Rightarrow>
                    if action = JStr ''fail'' then
                      (case py_in ''/'' test_name of
                         Inl e \<Rightarrow> Inl e
                       | Inr True \<Rightarrow> Inr failed_tests
                       | Inr False \<Rightarrow>
                           (case hash_pair package test_name of
                              None \<Rightarrow> Inl TypeError
                            | Some k \<Rightarrow>
                                Inr (AList.update k (Test test_name package) failed_tests)))
                    else if action = JStr ''pass'' then
                      (case hash_pair package test_name of
                         None \<Rightarrow> Inl TypeError
                       | Some k \<Rightarrow>
                           if k \<in> set (map fst failed_tests)
                           then Inr (AList.delete k failed_tests)
                           else Inr failed_tests)
                    else Inr failed_tests)))"
  by (simp add: scan_line_def split: option.splits)

lemma scan_line_not_JObj:
  assumes "json_loads line = Some j" and "\<And>kvs. j \<noteq> JObj kvs"
    and "scan_line json_loads Test failed_tests line = Inr failed_tests'"
  shows "failed_tests' = failed_tests"
  using assms by (cases j) (auto simp: scan_line_def split: if_splits bool.splits)

lemma scan_line_pass:
  assumes "event_key json_loads ''pass'' line = Some k"
  shows "scan_line json_loads Test failed_tests line =
         Inr (if k \<in> set (map fst failed_tests) then AList.delete k failed_tests
              else failed_tests)"
proof -
  from assms obtain kvs where kvs: "json_loads line = Some (JObj kvs)"
    by (auto simp: event_key_def split: option.splits json.splits)
  from assms kvs obtain test_name package where
    "map_of kvs ''Test'' = Some test_name" "map_of kvs ''Package'' = Some package"
    "map_of kvs ''Action'' = Some (JStr ''pass'')" "hash_pair package test_name = Some k"
    by (auto simp: event_key_def split: option.splits if_splits)
  then show ?thesis
    by (simp add: scan_line_JObj [of json_loads line kvs, OF kvs])
qed

text \<open>What a successful iteration can have done to the dictionary.\<close>

lemma scan_line_Inr_cases:
  assumes "scan_line json_loads Test failed_tests line = Inr failed_tests'"
  shows "failed_tests' = failed_tests \<or>
         (\<exists>k. event_key json_loads ''pass'' line = Some k \<and>
              failed_tests' = AList.delete k failed_tests) \<or>
         (\<exists>s package kp.
              event_key json_loads ''fail'' line = Some (kp, KStr s) \<and>
              hash_key package = Some kp \<and> CHR ''/'' \<notin> set s \<and>
              failed_tests' =
                AList.update (kp, KStr s) (Test (JStr s) package) failed_tests)"
proof (cases "json_loads line")
  case None
  with assms show ?thesis by (simp add: scan_line_def)
next
  case (Some j)
  show ?thesis
  proof (cases "\<exists>kvs. j = JObj kvs")
    case False
    then show ?thesis
      using scan_line_not_JObj [OF Some _ assms] by blast
  next
    case True
    then obtain kvs where kvs: "json_loads line = Some (JObj kvs)"
      using Some by blast
    show ?thesis
    proof (cases "map_of kvs ''Test''")
      case None
      with assms show ?thesis by (simp add: scan_line_JObj [of json_loads line kvs, OF kvs])
    next
      case test: (Some test_name)
      from assms test obtain package action where
        pa: "map_of kvs ''Package'' = Some package" "map_of kvs ''Action'' = Some action"
        by (auto simp: scan_line_JObj [of json_loads line kvs, OF kvs] split: option.splits)
      consider (fail) "action = JStr ''fail''" | (pass) "action = JStr ''pass''"
        | (other) "action \<noteq> JStr ''fail''" "action \<noteq> JStr ''pass''"
        by blast
      then show ?thesis
      proof cases
        case other
        with assms test pa show ?thesis by (simp add: scan_line_JObj [of json_loads line kvs, OF kvs])
      next
        case pass
        with assms test pa obtain k where k: "hash_pair package test_name = Some k"
          by (auto simp: scan_line_JObj [of json_loads line kvs, OF kvs] split: option.splits)
        with test pa pass kvs have "event_key json_loads ''pass'' line = Some k"
          by (simp add: event_key_def)
        with assms show ?thesis
          by (auto simp: scan_line_pass split: if_splits)
      next
        case fail
        show ?thesis
        proof (cases "failed_tests' = failed_tests")
          case True
          then show ?thesis by simp
        next
          case False
          with assms test pa fail obtain k where
            k: "hash_pair package test_name = Some k"
            and slash: "py_in ''/'' test_name = Inr False"
            and upd: "failed_tests' = AList.update k (Test test_name package) failed_tests"
            by (auto simp: scan_line_JObj [of json_loads line kvs, OF kvs] split: option.splits sum.splits bool.splits)
          from k obtain s where s: "test_name = JStr s"
            using slash by (cases test_name) (auto simp: hash_pair_def split: option.splits)
          from k s obtain kp where kp: "hash_key package = Some kp" "k = (kp, KStr s)"
            by (auto simp: hash_pair_def split: option.splits)
          from slash s have "CHR ''/'' \<notin> set s"
            by (simp add: str_contains_slash)
          moreover from test pa fail kvs k kp
          have "event_key json_loads ''fail'' line = Some (kp, KStr s)"
            by (simp add: event_key_def)
          ultimately show ?thesis
            using upd kp s by blast
        qed
      qed
    qed
  qed
qed

lemma set_update_subset: "set (AList.update k v al) \<subseteq> insert (k, v) (set al)"
  by (induction al) auto

lemma set_delete_subset: "set (AList.delete k al) \<subseteq> set al"
  by (auto simp: AList.delete_eq)

lemma scan_lines_append:
  "scan_lines json_loads Test failed_tests (xs @ ys) =
     (case scan_lines json_loads Test failed_tests xs of
        Inl e \<Rightarrow> Inl e
      | Inr failed_tests' \<Rightarrow> scan_lines json_loads Test failed_tests' ys)"
  by (induction xs arbitrary: failed_tests) (auto split: sum.splits)

lemma scan_line_keys:
  assumes "scan_line json_loads Test failed_tests line = Inr failed_tests'"
    and "k \<in> set (map fst failed_tests')"
  shows "k \<in> set (map fst failed_tests) \<or> event_key json_loads ''fail'' line = Some k"
proof -
  from scan_line_Inr_cases [OF assms(1)]
  consider "failed_tests' = failed_tests"
    | k' where "failed_tests' = AList.delete k' failed_tests"
    | s package kp where "event_key json_loads ''fail'' line = Some (kp, KStr s)"
        "failed_tests' = AList.update (kp, KStr s) (Test (JStr s) package) failed_tests"
    by blast
  then show ?thesis
  proof cases
    case 1
    with assms(2) show ?thesis by simp
  next
    case 2
    with assms(2) show ?thesis
      using set_delete_subset [of k' failed_tests] by auto
  next
    case 3
    with assms(2) show ?thesis
      using set_update_subset [of "(kp, KStr s)" "Test (JStr s) package" failed_tests]
      by auto
  qed
qed

lemma scan_lines_key_absent:
  assumes "scan_lines json_loads Test failed_tests lines = Inr failed_tests'"
    and "k \<notin> set (map fst failed_tests)"
    and "\<forall>l \<in> set lines. event_key json_loads ''fail'' l \<noteq> Some k"
  shows "k \<notin> set (map fst failed_tests')"
  using assms
proof (induction lines arbitrary: failed_tests)
  case Nil
  then show ?case by simp
next
  case (Cons line lines)
  from Cons.prems(1) obtain ft where
    step: "scan_line json_loads Test failed_tests line = Inr ft"
    and rest: "scan_lines json_loads Test ft lines = Inr failed_tests'"
    by (auto split: sum.splits)
  have "k \<notin> set (map fst ft)"
    using scan_line_keys [OF step, of k] Cons.prems(2,3) by auto
  with Cons.IH [OF rest] Cons.prems(3) show ?case by simp
qed

lemma scan_line_entries:
  assumes "scan_line json_loads Test failed_tests line = Inr failed_tests'"
    and "e \<in> set failed_tests'"
  shows "e \<in> set failed_tests \<or> parent_entry Test e"
proof -
  from scan_line_Inr_cases [OF assms(1)]
  consider "failed_tests' = failed_tests"
    | k' where "failed_tests' = AList.delete k' failed_tests"
    | s package kp where "hash_key package = Some kp" "CHR ''/'' \<notin> set s"
        "failed_tests' = AList.update (kp, KStr s) (Test (JStr s) package) failed_tests"
    by blast
  then show ?thesis
  proof cases
    case 1
    with assms(2) show ?thesis by simp
  next
    case 2
    with assms(2) show ?thesis
      using set_delete_subset [of k' failed_tests] by auto
  next
    case 3
    with assms(2) show ?thesis
      using set_update_subset [of "(kp, KStr s)" "Test (JStr s) package" failed_tests]
      by (auto simp: parent_entry_def)
  qed
qed

lemma scan_lines_entries:
  assumes "scan_lines json_loads Test failed_tests lines = Inr failed_tests'"
    and "\<forall>e \<in> set failed_tests. parent_entry Test e"
  shows "\<forall>e \<in> set failed_tests'. parent_entry Test e"
  using assms
proof (induction lines arbitrary: failed_tests)
  case Nil
  then show ?case by simp
next
  case (Cons line lines)
  from Cons.prems(1) obtain ft where
    step: "scan_line json_loads Test failed_tests line = Inr ft"
    and rest: "scan_lines json_loads Test ft lines = Inr failed_tests'"
    by (auto split: sum.splits)
  have "\<forall>e \<in> set ft. parent_entry Test e"
    using scan_line_entries [OF step] Cons.prems(2) by blast
  from Cons.IH [OF rest this] show ?case .
qed

text \<open>A stream of well-formed events is processed to the end.\<close>

lemma scan_lines_events_total:
  assumes "\<forall>l \<in> set lines. \<exists>action package test_name.
             json_loads l = Some (event action package test_name)"
  shows "\<exists>failed_tests'. scan_lines json_loads Test failed_tests lines = Inr failed_tests'"
  using assms
proof (induction lines arbitrary: failed_tests)
  case Nil
  then show ?case by simp
next
  case (Cons line lines)
  then obtain action package test_name where
    "json_loads line = Some (event action package test_name)"
    by auto
  from scan_line_event [of json_loads line, OF this, of Test failed_tests]
  obtain ft where "scan_line json_loads Test failed_tests line = Inr ft"
    by (auto split: if_splits)
  with Cons.IH [of ft] Cons.prems show ?case by simp
qed

subsection \<open>Retried tests\<close>

text \<open>
  C2, as the code has it. In a stream that is processed to the end, a \<^verbatim>\<open>pass\<close> event
  for a key \<^verbatim>\<open>(package, name)\<close> leaves that key absent from the final dictionary when no
  \<^verbatim>\<open>fail\<close> event for the same key comes after it; a \<^verbatim>\<open>pass\<close> event for a key that the
  dictionary does not hold leaves the dictionary as it is; and the stream
  \<^verbatim>\<open>[{fail,pkgA,T1},{fail,pkgA,T2},{pass,pkgA,T1}]\<close> ends with exactly the key
  \<^verbatim>\<open>(pkgA, T2)\<close>.
\<close>

theorem pass_removes_failed_test:
  "(\<forall>pre line post k failed_tests.
      scan_lines json_loads Test [] (pre @ line # post) = Inr failed_tests \<and>
      event_key json_loads ''pass'' line = Some k \<and>
      (\<forall>l \<in> set post. event_key json_loads ''fail'' l \<noteq> Some k) \<longrightarrow>
      k \<notin> set (map fst failed_tests)) \<and>
   (\<forall>failed_tests line k.
      event_key json_loads ''pass'' line = Some k \<and> k \<notin> set (map fst failed_tests) \<longrightarrow>
      scan_line json_loads Test failed_tests line = Inr failed_tests) \<and>
   scan_lines example_json_loads example_Test [] [fail_T1, fail_T2, pass_T1] =
     Inr [((KStr ''pkgA'', KStr ''T2''), example_Test (JStr ''T2'') (JStr ''pkgA''))]"
proof (intro conjI allI impI)
  fix pre line post k and failed_tests :: "'a failed_tests"
  assume a: "scan_lines json_loads Test [] (pre @ line # post) = Inr failed_tests \<and>
      event_key json_loads ''pass'' line = Some k \<and>
      (\<forall>l \<in> set post. event_key json_loads ''fail'' l \<noteq> Some k)"
  then obtain ft where pre: "scan_lines json_loads Test [] pre = Inr ft"
    and rest: "scan_lines json_loads Test ft (line # post) = Inr failed_tests"
    by (auto simp: scan_lines_append split: sum.splits)
  let ?ft = "if k \<in> set (map fst ft) then AList.delete k ft else ft"
  from a have step: "scan_line json_loads Test ft line = Inr ?ft"
    by (simp add: scan_line_pass)
  with rest have post: "scan_lines json_loads Test ?ft post = Inr failed_tests"
    by simp
  have "k \<notin> set (map fst ?ft)"
    using AList.delete_notin_dom [of k ft] by simp
  from scan_lines_key_absent [OF post this] a
  show "k \<notin> set (map fst failed_tests)" by blast
next
  fix failed_tests :: "'a failed_tests" and line k
  assume "event_key json_loads ''pass'' line = Some k \<and> k \<notin> set (map fst failed_tests)"
  then show "scan_line json_loads Test failed_tests line = Inr failed_tests"
    by (simp add: scan_line_pass)
next
  show "scan_lines example_json_loads example_Test [] [fail_T1, fail_T2, pass_T1] =
     Inr [((KStr ''pkgA'', KStr ''T2''), example_Test (JStr ''T2'') (JStr ''pkgA''))]"
    by (simp add: example_scan_line)
qed

lemma example_event_key:
  "event_key example_json_loads ''pass'' pass_T1 = Some (KStr ''pkgA'', KStr ''T1'')"
  "event_key example_json_loads ''fail'' fail_T1 = Some (KStr ''pkgA'', KStr ''T1'')"
  "event_key example_json_loads ''fail'' fail_T2 = Some (KStr ''pkgA'', KStr ''T2'')"
  by (simp_all add: event_key_def example_json_loads_simps event_def hash_pair_def)

theorem pass_removes_failed_test_witness:
  "scan_lines example_json_loads example_Test [] ([fail_T1] @ pass_T1 # [fail_T2]) =
     Inr [((KStr ''pkgA'', KStr ''T2''), example_Test (JStr ''T2'') (JStr ''pkgA''))] \<and>
   event_key example_json_loads ''pass'' pass_T1 = Some (KStr ''pkgA'', KStr ''T1'') \<and>
   event_key example_json_loads ''fail'' fail_T2 \<noteq> Some (KStr ''pkgA'', KStr ''T1'') \<and>
   (KStr ''pkgA'', KStr ''T1'') \<notin>
     set (map fst [((KStr ''pkgA'', KStr ''T2''), example_Test (JStr ''T2'') (JStr ''pkgA''))]) \<and>
   scan_line example_json_loads example_Test
     [((KStr ''pkgA'', KStr ''T2''), example_Test (JStr ''T2'') (JStr ''pkgA''))] pass_T1 =
     Inr [((KStr ''pkgA'', KStr ''T2''), example_Test (JStr ''T2'') (JStr ''pkgA''))]"
proof -
  let ?ft = "[((KStr ''pkgA'', KStr ''T2''), example_Test (JStr ''T2'') (JStr ''pkgA''))]"
  note removed = pass_removes_failed_test [of example_json_loads example_Test]
  have run: "scan_lines example_json_loads example_Test [] ([fail_T1] @ pass_T1 # [fail_T2]) =
     Inr ?ft"
    by (simp add: example_scan_line)
  have later: "\<forall>l \<in> set [fail_T2].
      event_key example_json_loads ''fail'' l \<noteq> Some (KStr ''pkgA'', KStr ''T1'')"
    by (simp add: example_event_key)
  from removed run example_event_key(1) later
  have absent: "(KStr ''pkgA'', KStr ''T1'') \<notin> set (map fst ?ft)"
    by blast
  from removed example_event_key(1) absent
  have "scan_line example_json_loads example_Test ?ft pass_T1 = Inr ?ft"
    by blast
  with run absent later example_event_key(1) show ?thesis
    by simp
qed

theorem fail_after_pass_counterexample:
  "event_key example_json_loads ''fail'' fail_T1 = Some (KStr ''pkgA'', KStr ''T1'') \<and>
   event_key example_json_loads ''pass'' pass_T1 = Some (KStr ''pkgA'', KStr ''T1'') \<and>
   scan_lines example_json_loads example_Test [] [fail_T1, pass_T1, fail_T1] =
     Inr [((KStr ''pkgA'', KStr ''T1''), example_Test (JStr ''T1'') (JStr ''pkgA''))]"
  by (simp add: example_scan_line example_event_key)

subsection \<open>Lines that are not JSON\<close>




subsection \<open>Subtests\<close>

text \<open>
  C8. In the dictionary of a stream that is processed to the end, no key has a test
  name containing \<^verbatim>\<open>/\<close>; every test returned was built for a name without \<^verbatim>\<open>/\<close>.
\<close>

theorem subtests_never_reported:
  assumes "scan_lines json_loads Test [] lines = Inr failed_tests"
  shows "(\<forall>kp s. CHR ''/'' \<in> set s \<longrightarrow> (kp, KStr s) \<notin> set (map fst failed_tests)) \<and>
         (\<forall>kp kn. (kp, kn) \<in> set (map fst failed_tests) \<longrightarrow> (\<exists>s. kn = KStr s)) \<and>
         (\<forall>t \<in> set (map snd failed_tests).
            \<exists>s package. t = Test (JStr s) package \<and> CHR ''/'' \<notin> set s)"
proof -
  have "\<forall>e \<in> set ([] :: 'a failed_tests). parent_entry Test e" by simp
  from scan_lines_entries [OF assms this]
  have inv: "\<forall>e \<in> set failed_tests. parent_entry Test e" .
  show ?thesis
  proof (intro conjI allI impI ballI)
    fix kp s
    assume slash: "CHR ''/'' \<in> set s"
    show "(kp, KStr s) \<notin> set (map fst failed_tests)"
    proof
      assume "(kp, KStr s) \<in> set (map fst failed_tests)"
      then obtain t where "((kp, KStr s), t) \<in> set failed_tests" by auto
      with inv have "parent_entry Test ((kp, KStr s), t)" by blast
      with slash show False by (auto simp: parent_entry_def)
    qed
  next
    fix kp kn
    assume "(kp, kn) \<in> set (map fst failed_tests)"
    then obtain t where "((kp, kn), t) \<in> set failed_tests" by auto
    with inv have "parent_entry Test ((kp, kn), t)" by blast
    then show "\<exists>s. kn = KStr s" by (auto simp: parent_entry_def)
  next
    fix t
    assume "t \<in> set (map snd failed_tests)"
    then obtain k where "(k, t) \<in> set failed_tests" by auto
    with inv have "parent_entry Test (k, t)" by blast
    then show "\<exists>s package. t = Test (JStr s) package \<and> CHR ''/'' \<notin> set s"
      by (auto simp: parent_entry_def)
  qed
qed

theorem subtests_never_reported_witness:
  "scan_lines example_json_loads example_Test [] [fail_T1, fail_sub, fail_T2] =
     Inr [((KStr ''pkgA'', KStr ''T1''), example_Test (JStr ''T1'') (JStr ''pkgA'')),
          ((KStr ''pkgA'', KStr ''T2''), example_Test (JStr ''T2'') (JStr ''pkgA''))] \<and>
   example_json_loads fail_sub = Some (event ''fail'' ''pkgA'' ''T3/case'') \<and>
   CHR ''/'' \<in> set ''T3/case'' \<and>
   (KStr ''pkgA'', KStr ''T3/case'') \<notin>
     set (map fst
       [((KStr ''pkgA'', KStr ''T1''), example_Test (JStr ''T1'') (JStr ''pkgA'')),
        ((KStr ''pkgA'', KStr ''T2''), example_Test (JStr ''T2'') (JStr ''pkgA''))])"
proof -
  have run: "scan_lines example_json_loads example_Test [] [fail_T1, fail_sub, fail_T2] =
     Inr [((KStr ''pkgA'', KStr ''T1''), example_Test (JStr ''T1'') (JStr ''pkgA'')),
          ((KStr ''pkgA'', KStr ''T2''), example_Test (JStr ''T2'') (JStr ''pkgA''))]"
    by (simp add: example_scan_line)
  have slash: "CHR ''/'' \<in> set ''T3/case''" by simp
  from subtests_never_reported [OF run] slash
  have "(KStr ''pkgA'', KStr ''T3/case'') \<notin>
     set (map fst
       [((KStr ''pkgA'', KStr ''T1''), example_Test (JStr ''T1'') (JStr ''pkgA'')),
        ((KStr ''pkgA'', KStr ''T2''), example_Test (JStr ''T2'') (JStr ''pkgA''))])"
    by blast
  with run slash example_json_loads_simps(4) show ?thesis
    by simp
qed

section \<open>Properties of the channel and project maps\<close>

lemma update_fresh: "k \<notin> set (map fst al) \<Longrightarrow> AList.update k v al = al @ [(k, v)]"
  by (induction al) auto

lemma load_items_strings:
  assumes "distinct (map fst result @ map fst kvs)"
  shows "load_items default_placeholder default_value result
           (map (\<lambda>(k, v). (YStr k, YStr v)) kvs) =
         Inr (result @
              map (\<lambda>(k, v). (k, if v = default_placeholder then default_value else v)) kvs)"
  using assms
proof (induction kvs arbitrary: result)
  case Nil
  then show ?case by simp
next
  case (Cons kv kvs)
  obtain k v where kv: "kv = (k, v)" by (cases kv)
  let ?v = "if v = default_placeholder then default_value else v"
  from Cons.prems kv have fresh: "k \<notin> set (map fst result)"
    by auto
  from Cons.prems kv have "distinct (map fst (result @ [(k, ?v)]) @ map fst kvs)"
    by auto
  from Cons.IH [OF this] fresh show ?case
    by (simp add: kv update_fresh)
qed

lemma load_items_bad_entry:
  assumes "\<not> (is_str k \<and> is_str v)"
  shows "load_items default_placeholder default_value result ((k, v) # items) =
         Inl (LoadValueError k v)"
  using assms by (cases k; cases v) simp_all

lemma load_items_first_bad:
  assumes "\<forall>(a, b) \<in> set pre. is_str a \<and> is_str b" and "\<not> (is_str k \<and> is_str v)"
  shows "load_items default_placeholder default_value result (pre @ (k, v) # post) =
         Inl (LoadValueError k v)"
  using assms(1)
proof (induction pre arbitrary: result)
  case Nil
  show ?case using assms(2) by (simp add: load_items_bad_entry)
next
  case (Cons ab pre)
  obtain a b where ab: "ab = (a, b)" by (cases ab)
  with Cons.prems obtain s t where "a = YStr s" "b = YStr t"
    by (cases a; cases b) auto
  with Cons ab show ?case by simp
qed

text \<open>
  C9. A map source with an entry whose key or value is not a string makes the loader
  raise the \<^verbatim>\<open>ValueError\<close> that names the first such entry, so no mapping is returned
  and nothing is coerced. A source of string entries is loaded entry by entry, and
  an entry whose value is the placeholder is loaded with the default value in its
  place. (The items of a mapping have distinct keys.)
\<close>

theorem load_and_validate_checks_strings:
  "(\<forall>items. (\<exists>kv \<in> set items. \<not> (is_str (fst kv) \<and> is_str (snd kv))) \<longrightarrow>
      (\<exists>pre k v post. items = pre @ (k, v) # post \<and>
         (\<forall>(a, b) \<in> set pre. is_str a \<and> is_str b) \<and> \<not> (is_str k \<and> is_str v) \<and>
         load_and_validate (YMap items) default_placeholder default_value =
           Inl (LoadValueError k v))) \<and>
   (\<forall>kvs. distinct (map fst kvs) \<longrightarrow>
      load_and_validate (YMap (map (\<lambda>(k, v). (YStr k, YStr v)) kvs))
          default_placeholder default_value =
        Inr (map (\<lambda>(k, v). (k, if v = default_placeholder then default_value else v)) kvs)) \<and>
   (\<forall>kvs k. distinct (map fst kvs) \<and> (k, default_placeholder) \<in> set kvs \<longrightarrow>
      (\<exists>result.
         load_and_validate (YMap (map (\<lambda>(k, v). (YStr k, YStr v)) kvs))
           default_placeholder default_value = Inr result \<and>
         map_of result k = Some default_value))"
proof (intro conjI allI impI)
  fix items :: "(yaml \<times> yaml) list"
  assume "\<exists>kv \<in> set items. \<not> (is_str (fst kv) \<and> is_str (snd kv))"
  from split_list_first_prop [OF this]
  obtain pre kv post where items: "items = pre @ kv # post"
    and bad: "\<not> (is_str (fst kv) \<and> is_str (snd kv))"
    and good: "\<forall>ab \<in> set pre. \<not> \<not> (is_str (fst ab) \<and> is_str (snd ab))"
    by blast
  obtain k v where kv: "kv = (k, v)" by (cases kv)
  from good have good': "\<forall>(a, b) \<in> set pre. is_str a \<and> is_str b"
    by auto
  from bad kv have bad': "\<not> (is_str k \<and> is_str v)" by simp
  have "load_and_validate (YMap items) default_placeholder default_value =
          Inl (LoadValueError k v)"
    unfolding items kv
    by (simp add: load_and_validate_def load_items_first_bad [OF good' bad'])
  with items kv good' bad'
  show "\<exists>pre k v post. items = pre @ (k, v) # post \<and>
         (\<forall>(a, b) \<in> set pre. is_str a \<and> is_str b) \<and> \<not> (is_str k \<and> is_str v) \<and>
         load_and_validate (YMap items) default_placeholder default_value =
           Inl (LoadValueError k v)"
    by blast
next
  fix kvs :: "(string \<times> string) list"
  assume "distinct (map fst kvs)"
  then show "load_and_validate (YMap (map (\<lambda>(k, v). (YStr k, YStr v)) kvs))
          default_placeholder default_value =
        Inr (map (\<lambda>(k, v). (k, if v = default_placeholder then default_value else v)) kvs)"
    using load_items_strings [of "[]" kvs default_placeholder default_value]
    by (simp add: load_and_validate_def)
next
  fix kvs :: "(string \<times> string) list" and k
  assume a: "distinct (map fst kvs) \<and> (k, default_placeholder) \<in> set kvs"
  let ?r = "map (\<lambda>(k, v). (k, if v = default_placeholder then default_value else v)) kvs"
  have load: "load_and_validate (YMap (map (\<lambda>(k, v). (YStr k, YStr v)) kvs))
          default_placeholder default_value = Inr ?r"
    using a load_items_strings [of "[]" kvs default_placeholder default_value]
    by (simp add: load_and_validate_def)
  have keys: "map fst ?r = map fst kvs"
    by (induction kvs) auto
  from a keys have dist: "distinct (map fst ?r)"
    by (simp only:)
  from a have "(k, default_value) \<in> set ?r"
    by force
  then have "map_of ?r k = Some default_value"
    using map_of_eq_Some_iff [OF dist] by blast
  with load show "\<exists>result.
         load_and_validate (YMap (map (\<lambda>(k, v). (YStr k, YStr v)) kvs))
           default_placeholder default_value = Inr result \<and>
         map_of result k = Some default_value"
    by blast
qed


theorem load_and_validate_checks_strings_witness:
  "(\<exists>kv \<in> set example_bad_source. \<not> (is_str (fst kv) \<and> is_str (snd kv))) \<and>
   load_and_validate (YMap example_bad_source) ''DEFAULT_SLACK_CHANNEL'' DEFAULT_SLACK_CHANNEL =
     Inl (LoadValueError (YStr ''@datadog/container-integrations'') (YNum 42)) \<and>
   distinct (map fst example_slack_entries) \<and>
   (''@datadog/agent-ci-experience'', ''DEFAULT_SLACK_CHANNEL'') \<in> set example_slack_entries \<and>
   (\<exists>result.
      load_and_validate (YMap (map (\<lambda>(k, v). (YStr k, YStr v)) example_slack_entries))
        ''DEFAULT_SLACK_CHANNEL'' DEFAULT_SLACK_CHANNEL = Inr result \<and>
      map_of result ''@datadog/agent-ci-experience'' = Some ''#agent-developer-experience'')"
proof -
  note checked = load_and_validate_checks_strings
    [of "''DEFAULT_SLACK_CHANNEL''" DEFAULT_SLACK_CHANNEL]
  have bad: "\<exists>kv \<in> set example_bad_source. \<not> (is_str (fst kv) \<and> is_str (snd kv))"
    by (simp add: example_bad_source_def)
  have raised:
    "load_and_validate (YMap example_bad_source) ''DEFAULT_SLACK_CHANNEL'' DEFAULT_SLACK_CHANNEL =
     Inl (LoadValueError (YStr ''@datadog/container-integrations'') (YNum 42))"
    by (simp add: load_and_validate_def example_bad_source_def)
  have dist: "distinct (map fst example_slack_entries)"
    by (simp add: example_slack_entries_def)
  have entry:
    "(''@datadog/agent-ci-experience'', ''DEFAULT_SLACK_CHANNEL'') \<in> set example_slack_entries"
    by (simp add: example_slack_entries_def)
  from checked dist entry
  have "\<exists>result.
      load_and_validate (YMap (map (\<lambda>(k, v). (YStr k, YStr v)) example_slack_entries))
        ''DEFAULT_SLACK_CHANNEL'' DEFAULT_SLACK_CHANNEL = Inr result \<and>
      map_of result ''@datadog/agent-ci-experience'' = Some DEFAULT_SLACK_CHANNEL"
    by blast
  then have loaded: "\<exists>result.
      load_and_validate (YMap (map (\<lambda>(k, v). (YStr k, YStr v)) example_slack_entries))
        ''DEFAULT_SLACK_CHANNEL'' DEFAULT_SLACK_CHANNEL = Inr result \<and>
      map_of result ''@datadog/agent-ci-experience'' = Some ''#agent-developer-experience''"
    by (simp add: DEFAULT_SLACK_CHANNEL_def)
  from bad raised dist entry loaded show ?thesis
    by (intro conjI)
qed

section \<open>Properties of the registry audit\<close>

lemma check_path_diagnostics:
  "check_path lower print_missing_teams slack jira (error, out) path =
     (error \<or> path_diagnostics lower slack jira path \<noteq> [],
      out @ (if print_missing_teams then path_diagnostics lower slack jira path else []))"
  by (auto simp: check_path_def path_diagnostics_def first_team_def Let_def
      split: list.splits)

lemma foldl_check_path:
  "foldl (check_path lower print_missing_teams slack jira) (error, out) paths =
     (error \<or> (\<exists>p \<in> set paths. path_diagnostics lower slack jira p \<noteq> []),
      out @ (if print_missing_teams then concat (map (path_diagnostics lower slack jira) paths)
             else []))"
  by (induction paths arbitrary: error out) (auto simp: check_path_diagnostics)

lemma path_diagnostics_nonempty:
  "path_diagnostics lower slack jira p \<noteq> [] \<longleftrightarrow>
     (\<exists>team. first_team p = Some team \<and>
        (lower team \<notin> set (map fst slack) \<or> lower team \<notin> set (map fst jira)))"
  by (auto simp: path_diagnostics_def split: option.splits)

text \<open>
  C5, as the code has it. The audit goes through every path. For each path whose
  first-listed owner is a team it prints one line if the team, lowered by
  \<^verbatim>\<open>str.lower()\<close>, is missing from the chat-channel map and one more if it is missing
  from the issue-tracker map: a team missing from both is reported by two lines for
  every path it is the first owner of, a team missing from one map by one line per path.
  The value returned says whether some path has a first-listed team missing from either
  map. This holds for any function \<open>lower\<close>, so for \<^verbatim>\<open>str.lower()\<close>.
\<close>

theorem audit_reports_every_gap:
  "check_for_missing_owners_slack_and_jira lower print_missing_teams slack jira paths =
     ((\<exists>p \<in> set paths. \<exists>team. first_team p = Some team \<and>
          (lower team \<notin> set (map fst slack) \<or> lower team \<notin> set (map fst jira))),
      if print_missing_teams then concat (map (path_diagnostics lower slack jira) paths) else []) \<and>
   (\<forall>p team. first_team p = Some team \<and> lower team \<notin> set (map fst slack) \<and>
        lower team \<notin> set (map fst jira) \<longrightarrow>
      path_diagnostics lower slack jira p = [slack_message team, jira_message team]) \<and>
   (\<forall>p team. first_team p = Some team \<and> lower team \<in> set (map fst slack) \<and>
        lower team \<notin> set (map fst jira) \<longrightarrow>
      path_diagnostics lower slack jira p = [jira_message team]) \<and>
   (\<forall>p team. first_team p = Some team \<and> lower team \<notin> set (map fst slack) \<and>
        lower team \<in> set (map fst jira) \<longrightarrow>
      path_diagnostics lower slack jira p = [slack_message team])"
  by (simp add: check_for_missing_owners_slack_and_jira_def foldl_check_path
      path_diagnostics_nonempty) (simp add: path_diagnostics_def)


lemma example_first_team:
  "first_team (''/pkg/new/'', ''/pkg/new/'', [(''TEAM'', ''@DataDog/new-team'')]) =
     Some ''@DataDog/new-team''"
  "first_team (''/omnibus/'', ''/omnibus/'', [(''TEAM'', ''@DataDog/agent-platform'')]) =
     Some ''@DataDog/agent-platform''"
  by (simp_all add: first_team_def path_owners_def)

lemma example_lower:
  "ascii_lower ''@DataDog/new-team'' = ''@datadog/new-team''"
  "ascii_lower ''@DataDog/agent-platform'' = ''@datadog/agent-platform''"
  "ascii_lower ''@DataDog/agent-ci-experience'' = ''@datadog/agent-ci-experience''"
  by (simp_all add: ascii_lower_def lower_char_def)

lemma example_audit:
  "check_for_missing_owners_slack_and_jira ascii_lower True example_slack_map example_jira_map
     example_paths =
   (True, [slack_message ''@DataDog/new-team'', jira_message ''@DataDog/new-team'',
           slack_message ''@DataDog/new-team'', jira_message ''@DataDog/new-team'',
           jira_message ''@DataDog/agent-platform''])"
  by (simp add: check_for_missing_owners_slack_and_jira_def check_path_def path_owners_def
      example_paths_def example_slack_map_def example_jira_map_def example_lower)

theorem audit_reports_every_gap_witness:
  "first_team (''/pkg/new/'', ''/pkg/new/'', [(''TEAM'', ''@DataDog/new-team'')]) =
     Some ''@DataDog/new-team'' \<and>
   ascii_lower ''@DataDog/new-team'' \<notin> set (map fst example_slack_map) \<and>
   ascii_lower ''@DataDog/new-team'' \<notin> set (map fst example_jira_map) \<and>
   path_diagnostics ascii_lower example_slack_map example_jira_map
     (''/pkg/new/'', ''/pkg/new/'', [(''TEAM'', ''@DataDog/new-team'')]) =
     [slack_message ''@DataDog/new-team'', jira_message ''@DataDog/new-team''] \<and>
   first_team (''/omnibus/'', ''/omnibus/'', [(''TEAM'', ''@DataDog/agent-platform'')]) =
     Some ''@DataDog/agent-platform'' \<and>
   ascii_lower ''@DataDog/agent-platform'' \<in> set (map fst example_slack_map) \<and>
   ascii_lower ''@DataDog/agent-platform'' \<notin> set (map fst example_jira_map) \<and>
   path_diagnostics ascii_lower example_slack_map example_jira_map
     (''/omnibus/'', ''/omnibus/'', [(''TEAM'', ''@DataDog/agent-platform'')]) =
     [jira_message ''@DataDog/agent-platform''] \<and>
   check_for_missing_owners_slack_and_jira ascii_lower True example_slack_map example_jira_map
     example_paths =
     (True, concat (map (path_diagnostics ascii_lower example_slack_map example_jira_map) example_paths))"
proof -
  note audit = audit_reports_every_gap [of ascii_lower True example_slack_map example_jira_map example_paths]
  have new: "ascii_lower ''@DataDog/new-team'' \<notin> set (map fst example_slack_map)"
    "ascii_lower ''@DataDog/new-team'' \<notin> set (map fst example_jira_map)"
    by (simp_all add: example_lower example_slack_map_def example_jira_map_def)
  have platform: "ascii_lower ''@DataDog/agent-platform'' \<in> set (map fst example_slack_map)"
    "ascii_lower ''@DataDog/agent-platform'' \<notin> set (map fst example_jira_map)"
    by (simp_all add: example_lower example_slack_map_def example_jira_map_def)
  from audit example_first_team(1) new
  have d1: "path_diagnostics ascii_lower example_slack_map example_jira_map
     (''/pkg/new/'', ''/pkg/new/'', [(''TEAM'', ''@DataDog/new-team'')]) =
     [slack_message ''@DataDog/new-team'', jira_message ''@DataDog/new-team'']"
    by blast
  from audit example_first_team(2) platform
  have d2: "path_diagnostics ascii_lower example_slack_map example_jira_map
     (''/omnibus/'', ''/omnibus/'', [(''TEAM'', ''@DataDog/agent-platform'')]) =
     [jira_message ''@DataDog/agent-platform'']"
    by blast
  from audit have "check_for_missing_owners_slack_and_jira ascii_lower True example_slack_map
     example_jira_map example_paths =
     (fst (check_for_missing_owners_slack_and_jira ascii_lower True example_slack_map
        example_jira_map example_paths),
      concat (map (path_diagnostics ascii_lower example_slack_map example_jira_map) example_paths))"
    by simp
  then have run: "check_for_missing_owners_slack_and_jira ascii_lower True example_slack_map
     example_jira_map example_paths =
     (True, concat (map (path_diagnostics ascii_lower example_slack_map example_jira_map) example_paths))"
    by (simp add: example_audit)
  from example_first_team new platform d1 d2 run show ?thesis
    by (intro conjI)
qed

theorem team_reported_per_path_counterexample:
  "first_team (''/pkg/new/'', ''/pkg/new/'', [(''TEAM'', ''@DataDog/new-team'')]) =
     Some ''@DataDog/new-team'' \<and>
   ascii_lower ''@DataDog/new-team'' \<notin> set (map fst example_slack_map) \<and>
   ascii_lower ''@DataDog/new-team'' \<notin> set (map fst example_jira_map) \<and>
   check_for_missing_owners_slack_and_jira ascii_lower True example_slack_map example_jira_map
     example_paths =
   (True, [slack_message ''@DataDog/new-team'', jira_message ''@DataDog/new-team'',
           slack_message ''@DataDog/new-team'', jira_message ''@DataDog/new-team'',
           jira_message ''@DataDog/agent-platform''])"
proof -
  have "ascii_lower ''@DataDog/new-team'' \<notin> set (map fst example_slack_map)"
    and "ascii_lower ''@DataDog/new-team'' \<notin> set (map fst example_jira_map)"
    by (simp_all add: example_lower example_slack_map_def example_jira_map_def)
  with example_first_team(1) example_audit show ?thesis
    by (intro conjI)
qed

section \<open>Properties of the message composition\<close>

lemma not_digit [simp]: "\<not> is_digit (CHR ''#'')" "\<not> is_digit (CHR ''('')"
  by (simp_all add: is_digit_def)

text \<open>The pattern matches a title that ends with \<^verbatim>\<open>(#\<close>, digits and \<^verbatim>\<open>)\<close>.\<close>

lemma get_pr_from_commit_match:
  assumes "\<forall>c \<in> set ds. is_digit c"
  shows "get_pr_from_commit (pre @ ''(#'' @ ds @ '')'') project_title =
         Some (ds, DATADOG_AGENT_GITHUB_ORG_URL @ ''/'' @ fstr project_title @ ''/pull/'' @ ds)"
proof -
  have digits: "\<And>x. x \<in> set (rev ds) \<Longrightarrow> is_digit x"
    using assms by simp
  have tw: "takeWhile is_digit (rev ds @ CHR ''#'' # CHR ''('' # rev pre) = rev ds"
    using takeWhile_append2 [of "rev ds" is_digit "CHR ''#'' # CHR ''('' # rev pre", OF digits]
    by simp
  have dw: "dropWhile is_digit (rev ds @ CHR ''#'' # CHR ''('' # rev pre) =
      CHR ''#'' # CHR ''('' # rev pre"
    using dropWhile_append2 [of "rev ds" is_digit "CHR ''#'' # CHR ''('' # rev pre", OF digits]
    by simp
  show ?thesis
    by (simp add: get_pr_from_commit_def tw dw)
qed


lemma startswith_Cons:
  "startswith (c # cs) (d # ds) \<longleftrightarrow> c = d \<and> startswith cs ds"
  by (simp add: startswith_def)




lemma replace_from_char:
  "replace_from [c0] new s = concat (map (\<lambda>c. if c = c0 then new else [c]) s)"
  by (induction s) (auto simp: startswith_Cons startswith_def)












text \<open>
  C10. The pattern's group is \<^verbatim>\<open>[0-9]*\<close>, so a title that ends with \<^verbatim>\<open>(#)\<close> matches with
  the empty PR id and a URL that ends with \<^verbatim>\<open>/pull/\<close>; the text replaced is then the
  single character \<^verbatim>\<open>#\<close>, and every \<^verbatim>\<open>#\<close> of the title becomes a link.
\<close>

theorem empty_pr_id_links_every_hash:
  assumes "commit_title = pre @ ''(#)''"
  shows "get_pr_from_commit commit_title project_title =
           Some ([], ''https://github.com/DataDog/'' @ fstr project_title @ ''/pull/'') \<and>
         enhanced_commit_title commit_title project_title =
           concat (map (\<lambda>c. if c = CHR ''#''
                            then ''<https://github.com/DataDog/'' @ fstr project_title @
                                 ''/pull/|#>''
                            else [c]) commit_title)"
proof -
  have "\<forall>c \<in> set []. is_digit c" by simp
  from get_pr_from_commit_match [OF this, of pre project_title] assms
  have pr: "get_pr_from_commit commit_title project_title =
      Some ([], DATADOG_AGENT_GITHUB_ORG_URL @ ''/'' @ fstr project_title @ ''/pull/'')"
    by simp
  have link: "''<'' @ (DATADOG_AGENT_GITHUB_ORG_URL @ ''/'' @ fstr project_title @ ''/pull/'') @
        ''|#'' @ ''>'' =
      ''<https://github.com/DataDog/'' @ fstr project_title @ ''/pull/|#>''"
    by (simp add: DATADOG_AGENT_GITHUB_ORG_URL_def)
  have "enhanced_commit_title commit_title project_title =
      replace_from ''#''
        (''<'' @ (DATADOG_AGENT_GITHUB_ORG_URL @ ''/'' @ fstr project_title @ ''/pull/'') @
         ''|#'' @ ''>'') commit_title"
    by (simp add: enhanced_commit_title_def pr str_replace_def)
  then have "enhanced_commit_title commit_title project_title =
      replace_from ''#''
        (''<https://github.com/DataDog/'' @ fstr project_title @ ''/pull/|#>'') commit_title"
    by (simp only: link)
  then have enh: "enhanced_commit_title commit_title project_title =
      concat (map (\<lambda>c. if c = CHR ''#''
                       then ''<https://github.com/DataDog/'' @ fstr project_title @
                            ''/pull/|#>''
                       else [c]) commit_title)"
    by (simp only: replace_from_char)
  from pr have "get_pr_from_commit commit_title project_title =
      Some ([], ''https://github.com/DataDog/'' @ fstr project_title @ ''/pull/'')"
    by (simp add: DATADOG_AGENT_GITHUB_ORG_URL_def)
  then show ?thesis
    using enh by (rule conjI)
qed

theorem empty_pr_id_links_every_hash_witness:
  "''Fix #1 bug (#)'' = ''Fix #1 bug '' @ ''(#)'' \<and>
   get_pr_from_commit ''Fix #1 bug (#)'' None = Some ([], ''https://github.com/DataDog/None/pull/'') \<and>
   enhanced_commit_title ''Fix #1 bug (#)'' None =
     ''Fix <https://github.com/DataDog/None/pull/|#>1 bug (<https://github.com/DataDog/None/pull/|#>)''"
proof -
  have h: "''Fix #1 bug (#)'' = ''Fix #1 bug '' @ ''(#)''" by simp
  note linked = empty_pr_id_links_every_hash [of "''Fix #1 bug (#)''" "''Fix #1 bug ''" None, OF h]
  from linked [THEN conjunct1]
  have pr: "get_pr_from_commit ''Fix #1 bug (#)'' None =
      Some ([], ''https://github.com/DataDog/None/pull/'')"
    by (simp add: fstr_def)
  from linked [THEN conjunct2]
  have enh: "enhanced_commit_title ''Fix #1 bug (#)'' None =
     ''Fix <https://github.com/DataDog/None/pull/|#>1 bug (<https://github.com/DataDog/None/pull/|#>)''"
    by (simp add: fstr_def)
  from h pr enh show ?thesis
    by (intro conjI)
qed

end
